theory Spec2Isabelle
  imports Main "HOL-Library.AList"
begin

section \<open>Python string operations used by mutatio.py\<close>

text \<open>
  Strings are character lists. Only the operations the script calls are modelled, each
  after the behaviour of the Python built-in of the same name.
\<close>

definition str_endswith :: "string \<Rightarrow> string \<Rightarrow> bool" where
  \<comment> \<open>\<^verbatim>\<open>s.endswith(suffix)\<close>\<close>
  "str_endswith s suf =
     (length suf \<le> length s \<and> drop (length s - length suf) s = suf)"

definition str_startswith :: "string \<Rightarrow> string \<Rightarrow> bool" where
  \<comment> \<open>\<^verbatim>\<open>s.startswith(prefix)\<close>\<close>
  "str_startswith s pre = (take (length pre) s = pre)"

definition str_rstrip :: "string \<Rightarrow> string \<Rightarrow> string" where
  \<comment> \<open>\<^verbatim>\<open>s.rstrip(chars)\<close>: drops trailing characters while they belong to the
      \<^emph>\<open>set\<close> \<open>chars\<close>; the argument is not a suffix.\<close>
  "str_rstrip s chars = rev (dropWhile (\<lambda>c. c \<in> set chars) (rev s))"

definition str_lstrip :: "string \<Rightarrow> string \<Rightarrow> string" where
  \<comment> \<open>\<^verbatim>\<open>s.lstrip(chars)\<close>: drops leading characters while they belong to the set
      \<open>chars\<close>.\<close>
  "str_lstrip s chars = dropWhile (\<lambda>c. c \<in> set chars) s"

fun str_split :: "char \<Rightarrow> string \<Rightarrow> string list" where
  \<comment> \<open>\<^verbatim>\<open>s.split(sep)\<close> for a one-character separator: never empty, \<open>''''\<close> gives
      \<open>['''']\<close>.\<close>
  "str_split sep [] = [[]]"
| "str_split sep (c # cs) =
     (let r = str_split sep cs
      in if c = sep then [] # r else (c # hd r) # tl r)"

definition linesep :: char where
  \<comment> \<open>\<^verbatim>\<open>os.linesep\<close> on a POSIX system, and the line end of text mode.\<close>
  "linesep = CHR 0x0A"

section \<open>Data model\<close>

text \<open>
  A file carries what \<^verbatim>\<open>os.stat\<close> reports of it and the script (through
  \<^verbatim>\<open>filecmp\<close>) reads: modification time and content; its size is the length of its
  content. A directory is its listing, in listing order, with unique names.
\<close>

datatype node = File nat string | Dir "(string \<times> node) list"

type_synonym dir = "(string \<times> node) list"

text \<open>
  What ends a call early: \<^verbatim>\<open>sys.exit(n)\<close>, and the uncaught exceptions
  \<^verbatim>\<open>IndexError\<close>, \<^verbatim>\<open>ValueError\<close>, \<^verbatim>\<open>OSError\<close> (with its
  subclasses) and \<^verbatim>\<open>shutil.Error\<close>. \<open>Unmodelled\<close> marks a path that leaves
  the part of the file system kept here (a member name with a slash, which need not stay
  inside the staging directory; a document named like the \<^verbatim>\<open>snapshots\<close>
  directory): what the access does there is not modelled, and the run is cut at that point.
\<close>

datatype error = SysExit int | IndexError | ValueError | OSError | ShutilError | Unmodelled

text \<open>
  What the run does to the outside, in order: a call of \<^verbatim>\<open>get_binary\<close> (URL and
  file name), a run of the signify command, a sleep, a call of \<^verbatim>\<open>get_document\<close>, a
  write of a cached document, and the three sinks of \<^verbatim>\<open>feedback\<close> (the call of
  \<^verbatim>\<open>notify\<close>, which runs \<^verbatim>\<open>notify-send\<close> where it is installed, the local
  mail, the standard output).
\<close>

datatype event =
    GetBinary string string
  | Signify string
  | Sleep nat
  | GetDocument string
  | WriteCache string
  | NotifySend string string string
  | Mail string string
  | Stdout string

text \<open>
  The outside world, as the script sees it. Answers may change as time passes (a mirror in
  the middle of a sync), so they depend on the clock.
  \<^item> \<open>urlopen t url\<close>: the body read from \<open>url\<close> at time \<open>t\<close>; \<open>None\<close> when
    \<^verbatim>\<open>request.urlopen\<close> raises \<^verbatim>\<open>ValueError\<close>, \<^verbatim>\<open>URLError\<close> or
    \<^verbatim>\<open>HTTPError\<close>. A response is read whole: a connection that breaks in the
    middle of a body is not modelled.
  \<^item> \<open>get_document t url\<close>: the lines \<^verbatim>\<open>get_document\<close> builds from the page
    (decoded, through w3m when installed); \<open>None\<close> when the fetch raises one of the
    three exceptions above, which \<^verbatim>\<open>get_document\<close> turns into
    \<^verbatim>\<open>sys.exit(-2)\<close>.
  \<^item> \<open>getstatusoutput t command d\<close>: exit status and output of the shell command run in
    directory \<open>d\<close>.
  \<^item> \<open>urljoin\<close>, \<open>context_diff\<close>: the library functions of these names.
  \<^item> \<open>root_ramdisk\<close>: the file \<^verbatim>\<open>/bsd.rd\<close> of the running system, if any.
  \<^item> \<open>mkdtemp_ok\<close>: whether a temporary directory can be created (under
    \<^verbatim>\<open>snapshots/\<close> with \<^verbatim>\<open>--no-temp\<close>, under the system's default else).
  File contents are text that the locale's encoding decodes, one character per byte.
\<close>

record env =
  urlopen :: "nat \<Rightarrow> string \<Rightarrow> string option"
  get_document :: "nat \<Rightarrow> string \<Rightarrow> string list option"
  getstatusoutput :: "nat \<Rightarrow> string \<Rightarrow> dir \<Rightarrow> int \<times> string"
  urljoin :: "string \<Rightarrow> string \<Rightarrow> string"
  context_diff :: "string list \<Rightarrow> string list \<Rightarrow> string list"
  root_ramdisk :: "node option"
  mkdtemp_ok :: bool

text \<open>
  The state the script changes: the clock (seconds; only \<^verbatim>\<open>sleep\<close> moves it, the
  time the other steps take is not counted), the cached documents of the working directory
  (name and content), the three generation slots under \<^verbatim>\<open>snapshots/\<close>, each empty
  or a directory, the staging directory \<^verbatim>\<open>tmp/snapshot\<close> (which is also the current
  directory once \<^verbatim>\<open>verify\<close> has run), and the trace of events. All paths are
  absolute, as they are with the default working directory \<^verbatim>\<open>~/obsd\<close>.
\<close>

record world =
  clock :: nat
  cache :: "(string \<times> string) list"
  previous :: "dir option"
  current :: "dir option"
  upgrade :: "dir option"
  staging :: "dir option"
  trace :: "event list"

text \<open>The dictionary \<^verbatim>\<open>signify\<close> of \<^verbatim>\<open>main\<close>.\<close>

record signify_conf =
  key_dir :: string
  sig_file :: string

section \<open>Binary Fetcher: \<^verbatim>\<open>get_binary\<close>\<close>

definition plain_name :: "string \<Rightarrow> bool" where
  \<comment> \<open>a name that denotes an entry of the directory it is resolved in\<close>
  "plain_name f = (f \<noteq> [] \<and> f \<noteq> ''.'' \<and> f \<noteq> ''..'' \<and> CHR ''/'' \<notin> set f)"

definition open_wb :: "string \<Rightarrow> nat \<Rightarrow> string \<Rightarrow> dir \<Rightarrow> error + dir" where
  \<comment> \<open>\<^verbatim>\<open>open(filename, "wb")\<close> followed by the write, in the staging directory. A NUL
      in the name is a \<^verbatim>\<open>ValueError\<close>, which \<^verbatim>\<open>get_binary\<close> catches and turns
      into \<^verbatim>\<open>sys.exit(-2)\<close>. The empty name, \<^verbatim>\<open>.\<close>, \<^verbatim>\<open>..\<close> and the name of
      a subdirectory cannot be opened for writing (an \<^verbatim>\<open>OSError\<close>). An existing
      file keeps its place in the listing, a new one is listed last.\<close>
  "open_wb filename t body d =
     (if CHR 0x00 \<in> set filename then Inl (SysExit (- 2))
      else if CHR ''/'' \<in> set filename then Inl Unmodelled
      else if \<not> plain_name filename then Inl OSError
      else (case map_of d filename of
              Some (Dir _) \<Rightarrow> Inl OSError
            | _ \<Rightarrow> Inr (AList.update filename (File t body) d)))"

definition get_binary :: "env \<Rightarrow> string \<Rightarrow> string \<Rightarrow> world \<Rightarrow> (error + unit) \<times> world" where
  "get_binary E url filename w =
     (let w1 = w\<lparr>trace := trace w @ [GetBinary url filename]\<rparr>
      in case urlopen E (clock w) url of
           None \<Rightarrow> (Inl (SysExit (- 2)), w1)
         | Some body \<Rightarrow>
             (case staging w of
                None \<Rightarrow> (Inl OSError, w1)
              | Some d \<Rightarrow>
                  (case open_wb filename (clock w) body d of
                     Inl e \<Rightarrow> (Inl e, w1)
                   | Inr d' \<Rightarrow> (Inr (), w1\<lparr>staging := Some d'\<rparr>))))"

section \<open>Signature Verifier: \<^verbatim>\<open>verify\<close>\<close>

definition glob_base :: "string \<Rightarrow> bool" where
  \<comment> \<open>the name matches the pattern \<^verbatim>\<open>base*.tgz\<close>\<close>
  "glob_base n = (8 \<le> length n \<and> str_startswith n ''base'' \<and> str_endswith n ''.tgz'')"

definition snapshot_release :: "string \<Rightarrow> string" where
  \<comment> \<open>\<^verbatim>\<open>name.rstrip('.tgz').lstrip('base')\<close>\<close>
  "snapshot_release name = str_lstrip (str_rstrip name ''.tgz'') ''base''"

definition signify_key :: "signify_conf \<Rightarrow> string \<Rightarrow> string" where
  \<comment> \<open>\<^verbatim>\<open>Path(signify['key_dir'], f"/etc/signify/openbsd-{release}-base.pub")\<close>: the
      second part is absolute, so the first is dropped\<close>
  "signify_key signify release = ''/etc/signify/openbsd-'' @ release @ ''-base.pub''"

definition signify_command :: "signify_conf \<Rightarrow> string \<Rightarrow> string \<Rightarrow> string" where
  \<comment> \<open>\<^verbatim>\<open>f"signify -Cp {signify_key} -x {signify['file']} {filename}"\<close>\<close>
  "signify_command signify release filename =
     ''signify -Cp '' @ signify_key signify release @ '' -x '' @ sig_file signify
       @ '' '' @ filename"

definition failed_members :: "string \<Rightarrow> string list" where
  \<comment> \<open>the list comprehension over the lines of the tool's output\<close>
  "failed_members output =
     map (\<lambda>i. hd (str_split CHR '':'' i))
       (filter (\<lambda>i. str_endswith i ''FAIL'') (str_split linesep output))"

definition verify ::
  "env \<Rightarrow> signify_conf \<Rightarrow> string \<Rightarrow> world \<Rightarrow> (error + bool \<times> string list) \<times> world" where
  "verify E signify filename w =
     (case staging w of
        None \<Rightarrow> (Inl OSError, w)
      | Some d \<Rightarrow>
          (case filter glob_base (map fst d) of
             [] \<Rightarrow> (Inl IndexError, w)
           | b # _ \<Rightarrow>
               (let command = signify_command signify (snapshot_release b) filename;
                    status = getstatusoutput E (clock w) command d
                in (Inr (fst status = 0, failed_members (snd status)),
                    w\<lparr>trace := trace w @ [Signify command]\<rparr>))))"

section \<open>Integrity Gate: \<^verbatim>\<open>check_integrity\<close>\<close>

definition sleep :: "nat \<Rightarrow> world \<Rightarrow> world" where
  "sleep n w = w\<lparr>clock := clock w + n, trace := trace w @ [Sleep n]\<rparr>"

fun get_binaries :: "env \<Rightarrow> string \<Rightarrow> string list \<Rightarrow> world \<Rightarrow> (error + unit) \<times> world" where
  \<comment> \<open>the loop \<^verbatim>\<open>for f in failed: get_binary(parse.urljoin(url, f), f)\<close>, and the loop
      \<^verbatim>\<open>for f in files: get_binary(parse.urljoin(url, f), subdir / f)\<close> of
      \<^verbatim>\<open>download_snapshot\<close>: both write into the staging directory\<close>
  "get_binaries E url [] w = (Inr (), w)"
| "get_binaries E url (f # fs) w =
     (case get_binary E (urljoin E url f) f w of
        (Inl e, w1) \<Rightarrow> (Inl e, w1)
      | (Inr _, w1) \<Rightarrow> get_binaries E url fs w1)"

definition check_integrity ::
  "env \<Rightarrow> signify_conf \<Rightarrow> string \<Rightarrow> world \<Rightarrow> (error + bool) \<times> world" where
  "check_integrity E signify url w =
     (case verify E signify [] w of
        (Inl e, w1) \<Rightarrow> (Inl e, w1)
      | (Inr (whole, failed), w1) \<Rightarrow>
          (if failed \<noteq> [] then
             (case get_binaries E url failed (sleep 300 w1) of
                (Inl e, w2) \<Rightarrow> (Inl e, w2)
              | (Inr _, w2) \<Rightarrow>
                  (case verify E signify [] w2 of
                     (Inl e, w3) \<Rightarrow> (Inl e, w3)
                   | (Inr (whole', failed'), w3) \<Rightarrow> (Inr whole', w3)))
           else (Inr whole, w1)))"

section \<open>Snapshot Acquirer: \<^verbatim>\<open>download_snapshot\<close>\<close>





section \<open>Installed-State Comparator: \<^verbatim>\<open>is_installed\<close>\<close>

fun filecmp :: "node \<Rightarrow> node \<Rightarrow> bool" where
  \<comment> \<open>\<^verbatim>\<open>filecmp.cmp(f1, f2)\<close> with its default \<^verbatim>\<open>shallow=True\<close>, on two paths that
      exist: false unless both are regular files; true when the signatures (type, size,
      modification time) are equal; false when the sizes differ; else the contents are
      compared\<close>
  "filecmp (File t1 c1) (File t2 c2) =
     (if (length c1, t1) = (length c2, t2) then True
      else if length c1 \<noteq> length c2 then False
      else c1 = c2)"
| "filecmp _ _ = False"

definition cmp :: "node option \<Rightarrow> node option \<Rightarrow> error + bool" where
  \<comment> \<open>\<^verbatim>\<open>os.stat\<close> raises for a path that does not exist\<close>
  "cmp f1 f2 =
     (case f1 of
        None \<Rightarrow> Inl OSError
      | Some a \<Rightarrow> (case f2 of None \<Rightarrow> Inl OSError | Some b \<Rightarrow> Inr (filecmp a b)))"

definition ramdisk_file :: string where
  "ramdisk_file = ''bsd.rd''"

definition is_installed :: "env \<Rightarrow> dir \<Rightarrow> error + bool" where
  "is_installed E snapshot = cmp (map_of snapshot ramdisk_file) (root_ramdisk E)"

section \<open>Generation Rotator: \<^verbatim>\<open>rotate\<close>\<close>

definition move :: "string \<Rightarrow> dir \<Rightarrow> dir option \<Rightarrow> error + dir" where
  \<comment> \<open>\<^verbatim>\<open>shutil.move(src, dst)\<close> of the directory \<open>src\<close> with base name \<open>name\<close>;
      the result is what \<open>dst\<close> holds afterwards. When \<open>dst\<close> is an existing
      directory, \<open>src\<close> is moved \<^emph>\<open>into\<close> it, unless it has an entry of that name
      already.\<close>
  "move name src dst =
     (case dst of
        None \<Rightarrow> Inr src
      | Some d \<Rightarrow>
          if name \<in> fst ` set d then Inl ShutilError else Inr (d @ [(name, Dir src)]))"

definition rotate :: "world \<Rightarrow> (error + unit) \<times> world" where
  "rotate w =
     (let w1 = (if previous w \<noteq> None then w\<lparr>previous := None\<rparr> else w)
      in case (case current w1 of
                 None \<Rightarrow> (Inr (), w1)
               | Some c \<Rightarrow>
                   (case move ''current'' c (previous w1) of
                      Inl e \<Rightarrow> (Inl e, w1)
                    | Inr p \<Rightarrow> (Inr (), w1\<lparr>previous := Some p, current := None\<rparr>))) of
           (Inl e, w2) \<Rightarrow> (Inl e, w2)
         | (Inr _, w2) \<Rightarrow>
             (case upgrade w2 of
                None \<Rightarrow> (Inl OSError, w2)
              | Some u \<Rightarrow>
                  (case move ''upgrade'' u (current w2) of
                     Inl e \<Rightarrow> (Inl e, w2)
                   | Inr c \<Rightarrow> (Inr (), w2\<lparr>current := Some c, upgrade := None\<rparr>))))"

section \<open>Document change detector: \<^verbatim>\<open>get_update_info\<close>\<close>

datatype status = Bootstrap | Same | New





section \<open>Notifier: \<^verbatim>\<open>feedback\<close>\<close>



section \<open>Release Orchestrator: \<^verbatim>\<open>main\<close>\<close>
















definition main_signify :: signify_conf where
  "main_signify = \<lparr>key_dir = ''/etc/signify/'', sig_file = ''SHA256.sig''\<rparr>"







section \<open>Observations on a run\<close>

fun is_signify :: "event \<Rightarrow> bool" where
  "is_signify (Signify _) = True"
| "is_signify _ = False"

fun is_sleep :: "event \<Rightarrow> bool" where
  "is_sleep (Sleep _) = True"
| "is_sleep _ = False"

definition slots :: "world \<Rightarrow> dir option \<times> dir option \<times> dir option" where
  \<comment> \<open>what the three generation slots hold\<close>
  "slots w = (previous w, current w, upgrade w)"



section \<open>Example data\<close>

text \<open>
  A small mirror, a staged snapshot and some signify stubs, on which the theorems below are
  instantiated.
\<close>

definition ex_manifest :: string where
  "ex_manifest =
     ''SHA256 (base62.tgz) = x'' @ [CHR 0x0A] @ ''SHA256 (bsd.rd) = y'' @ [CHR 0x0A]"

definition ex_mirror :: "(string \<times> string) list" where
  "ex_mirror =
     [(''http://m/snapshots/amd64/SHA256.sig'', ex_manifest),
      (''http://m/snapshots/amd64/base62.tgz'', ''B''),
      (''http://m/snapshots/amd64/bsd.rd'', ''R'')]"

definition ex_env :: "(nat \<Rightarrow> string \<Rightarrow> dir \<Rightarrow> int \<times> string) \<Rightarrow> env" where
  "ex_env tool =
     \<lparr>urlopen = (\<lambda>t. map_of ex_mirror),
      get_document = (\<lambda>t u. Some [''l1'']),
      getstatusoutput = tool,
      urljoin = (\<lambda>b r. b @ r),
      context_diff = (\<lambda>a b. if a = b then [] else [''diff'']),
      root_ramdisk = Some (File 0 ''R''),
      mkdtemp_ok = True\<rparr>"

definition ex_staged :: world where
  "ex_staged =
     \<lparr>clock = 0, cache = [], previous = None, current = None, upgrade = None,
      staging = Some [(''SHA256.sig'', File 0 ex_manifest), (''base62.tgz'', File 0 ''B''),
                      (''bsd.rd'', File 0 ''R'')],
      trace = []\<rparr>"

definition ex_command :: string where
  "ex_command = ''signify -Cp /etc/signify/openbsd-62-base.pub -x SHA256.sig ''"

definition ex_fail_output :: string where
  "ex_fail_output = ''base62.tgz: FAIL'' @ [CHR 0x0A] @ ''bsd.rd: FAIL''"

definition tool_exit1_silent :: "nat \<Rightarrow> string \<Rightarrow> dir \<Rightarrow> int \<times> string" where
  "tool_exit1_silent t c d = (1, ''signify: unsupported file SHA256.sig'')"

definition tool_exit0_with_fail :: "nat \<Rightarrow> string \<Rightarrow> dir \<Rightarrow> int \<times> string" where
  "tool_exit0_with_fail t c d = (0, ''base62.tgz: OK'' @ [CHR 0x0A] @ ''bsd.rd: FAIL'')"

definition tool_always_fails :: "nat \<Rightarrow> string \<Rightarrow> dir \<Rightarrow> int \<times> string" where
  "tool_always_fails t c d = (1, ex_fail_output)"

definition tool_fails_then_passes :: "nat \<Rightarrow> string \<Rightarrow> dir \<Rightarrow> int \<times> string" where
  "tool_fails_then_passes t c d =
     (if t < 300 then (1, ex_fail_output)
      else (0, ''base62.tgz: OK'' @ [CHR 0x0A] @ ''bsd.rd: OK''))"

definition ex_refetched :: world where
  "ex_refetched = ex_staged\<lparr>clock := 300,
      staging := Some [(''SHA256.sig'', File 0 ex_manifest), (''base62.tgz'', File 300 ''B''),
                      (''bsd.rd'', File 300 ''R'')],
      trace := [Signify ex_command, Sleep 300,
                GetBinary ''http://m/snapshots/amd64/base62.tgz'' ''base62.tgz'',
                GetBinary ''http://m/snapshots/amd64/bsd.rd'' ''bsd.rd'']\<rparr>"

definition ex_slots :: world where
  "ex_slots =
     \<lparr>clock = 0, cache = [],
      previous = Some [(''bsd.rd'', File 1 ''P'')],
      current = Some [(''bsd.rd'', File 2 ''C'')],
      upgrade = Some [(''bsd.rd'', File 3 ''R'')],
      staging = None, trace = []\<rparr>"











definition ex_mirror_gone :: env where
  \<comment> \<open>the mirror stops answering before the retry\<close>
  "ex_mirror_gone =
     ex_env tool_always_fails\<lparr>urlopen := (\<lambda>t. if t < 300 then map_of ex_mirror else (\<lambda>u. None))\<rparr>"

section \<open>Strings\<close>

lemma str_split_not_Nil: "str_split sep s \<noteq> []"
  by (induction s) (auto simp: Let_def)

lemma hd_str_split: "hd (str_split sep s) = takeWhile (\<lambda>c. c \<noteq> sep) s"
  by (induction s) (auto simp: Let_def)

lemma failed_members_eq:
  "failed_members output =
     map (takeWhile (\<lambda>c. c \<noteq> CHR '':''))
       (filter (\<lambda>l. str_endswith l ''FAIL'') (str_split linesep output))"
  by (simp add: failed_members_def hd_str_split)

section \<open>What each operation leaves alone\<close>

lemma sleep_simps [simp]:
  "clock (sleep n w) = clock w + n" "trace (sleep n w) = trace w @ [Sleep n]"
  "staging (sleep n w) = staging w" "cache (sleep n w) = cache w" "slots (sleep n w) = slots w"
  by (simp_all add: sleep_def slots_def)

lemma verify_Inr:
  assumes "verify E signify filename w = (Inr (passed, failed), w')"
  obtains d b bs where "staging w = Some d" and "filter glob_base (map fst d) = b # bs"
    and "passed = (fst (getstatusoutput E (clock w)
            (signify_command signify (snapshot_release b) filename) d) = 0)"
    and "failed = failed_members (snd (getstatusoutput E (clock w)
            (signify_command signify (snapshot_release b) filename) d))"
    and "w' = w\<lparr>trace := trace w
            @ [Signify (signify_command signify (snapshot_release b) filename)]\<rparr>"
  using assms
  by (auto simp: verify_def Let_def split: option.splits list.splits)


lemma verify_frame:
  assumes "verify E signify filename w = (r, w')"
  shows "clock w' = clock w" "cache w' = cache w" "slots w' = slots w" "staging w' = staging w"
    "trace w' = trace w \<or> (\<exists>c. trace w' = trace w @ [Signify c])"
  using assms
  by (auto simp: verify_def Let_def slots_def split: option.splits list.splits)

lemma get_binary_frame:
  assumes "get_binary E url f w = (r, w')"
  shows "trace w' = trace w @ [GetBinary url f]" "clock w' = clock w" "cache w' = cache w"
    "slots w' = slots w"
  using assms
  by (auto simp: get_binary_def Let_def slots_def split: option.splits sum.splits)

lemma get_binaries_frame:
  assumes "get_binaries E url fs w = (r, w')"
  shows "clock w' = clock w \<and> cache w' = cache w \<and> slots w' = slots w
    \<and> (\<exists>n\<le>length fs.
          trace w' = trace w @ map (\<lambda>f. GetBinary (urljoin E url f) f) (take n fs))"
  using assms
proof (induction fs arbitrary: w)
  case Nil
  then show ?case by auto
next
  case (Cons f fs)
  obtain r1 w1 where g: "get_binary E (urljoin E url f) f w = (r1, w1)"
    by (cases "get_binary E (urljoin E url f) f w")
  note fr = get_binary_frame[OF g]
  show ?case
  proof (cases r1)
    case (Inl e)
    with Cons.prems g have "w' = w1" by simp
    with fr show ?thesis
      by (auto intro!: exI[of _ "Suc 0"])
  next
    case (Inr u)
    with Cons.prems g have "get_binaries E url fs w1 = (r, w')" by simp
    from Cons.IH[OF this] obtain n where n: "n \<le> length fs"
      "trace w' = trace w1 @ map (\<lambda>f. GetBinary (urljoin E url f) f) (take n fs)"
      and rest: "clock w' = clock w1" "cache w' = cache w1" "slots w' = slots w1"
      by auto
    from n fr have "Suc n \<le> length (f # fs)
      \<and> trace w' = trace w @ map (\<lambda>f. GetBinary (urljoin E url f) f) (take (Suc n) (f # fs))"
      by simp
    with rest fr show ?thesis by metis
  qed
qed

lemma get_binaries_Inr_trace:
  assumes "get_binaries E url fs w = (Inr u, w')"
  shows "trace w' = trace w @ map (\<lambda>f. GetBinary (urljoin E url f) f) fs"
  using assms
proof (induction fs arbitrary: w)
  case Nil
  then show ?case by simp
next
  case (Cons f fs)
  obtain r1 w1 where g: "get_binary E (urljoin E url f) f w = (r1, w1)"
    by (cases "get_binary E (urljoin E url f) f w")
  with Cons.prems obtain u1 where r1: "r1 = Inr u1"
    and rest: "get_binaries E url fs w1 = (Inr u, w')"
    by (cases r1) auto
  from Cons.IH[OF rest] get_binary_frame(1)[OF g] show ?case by simp
qed

lemma no_signify_in_fetches:
  "filter is_signify (map (\<lambda>f. GetBinary (urljoin E url f) f) xs) = []"
  "filter is_sleep (map (\<lambda>f. GetBinary (urljoin E url f) f) xs) = []"
  by (induction xs) auto

text \<open>A fetch adds or overwrites one entry, so the first base archive stays the first.\<close>

lemma open_wb_keys:
  assumes "open_wb f t body d = Inr d'"
  shows "map fst d' = (if f \<in> set (map fst d) then map fst d else map fst d @ [f])"
  using assms
  by (force simp: open_wb_def update_keys split: if_splits option.splits node.splits)

lemma open_wb_base:
  assumes "open_wb f t body d = Inr d'" and "filter glob_base (map fst d) = b # bs"
  shows "\<exists>bs'. filter glob_base (map fst d') = b # bs'"
  using assms by (auto simp: open_wb_keys)

lemma get_binary_base:
  assumes "get_binary E url f w = (Inr u, w')"
    and "staging w = Some d" and "filter glob_base (map fst d) = b # bs"
  shows "\<exists>d' bs'. staging w' = Some d' \<and> filter glob_base (map fst d') = b # bs'"
proof -
  from assms(1,2) obtain body d' where
    "open_wb f (clock w) body d = Inr d'" "staging w' = Some d'"
    by (auto simp: get_binary_def Let_def split: option.splits sum.splits)
  with open_wb_base[OF this(1) assms(3)] show ?thesis by auto
qed

lemma get_binaries_base:
  assumes "get_binaries E url fs w = (Inr u, w')"
    and "staging w = Some d" and "filter glob_base (map fst d) = b # bs"
  shows "\<exists>d' bs'. staging w' = Some d' \<and> filter glob_base (map fst d') = b # bs'"
  using assms
proof (induction fs arbitrary: w d bs)
  case Nil
  then show ?case by auto
next
  case (Cons f fs)
  obtain r1 w1 where g: "get_binary E (urljoin E url f) f w = (r1, w1)"
    by (cases "get_binary E (urljoin E url f) f w")
  with Cons.prems(1) obtain u1 where r1: "r1 = Inr u1"
    and rest: "get_binaries E url fs w1 = (Inr u, w')"
    by (cases r1) auto
  from get_binary_base[OF g[unfolded r1] Cons.prems(2,3)]
  obtain d1 bs1 where "staging w1 = Some d1" "filter glob_base (map fst d1) = b # bs1"
    by auto
  from Cons.IH[OF rest this] show ?case .
qed

section \<open>The Signature Verifier's verdict\<close>

lemmas ex_simps = ex_env_def ex_staged_def ex_manifest_def ex_mirror_def verify_def glob_base_def
  str_startswith_def str_endswith_def snapshot_release_def str_rstrip_def str_lstrip_def
  signify_command_def signify_key_def main_signify_def failed_members_def linesep_def Let_def
  ex_command_def ex_fail_output_def

lemma ex_verify_exit0_with_fail:
  "verify (ex_env tool_exit0_with_fail) main_signify [] ex_staged
     = (Inr (True, [''bsd.rd'']), ex_staged\<lparr>trace := [Signify ex_command]\<rparr>)"
  by (simp add: ex_simps tool_exit0_with_fail_def)

lemma ex_verify_silent:
  "verify (ex_env tool_exit1_silent) main_signify [] ex_staged
     = (Inr (False, []), ex_staged\<lparr>trace := [Signify ex_command]\<rparr>)"
  by (simp add: ex_simps tool_exit1_silent_def)

text \<open>
  C1, as the code has it. When \<^verbatim>\<open>verify\<close> returns, its boolean says that the exit
  status of the tool is 0, and nothing else: the list of failed members has no part in
  it. The list holds, in the order of the output, the text before the first colon of every
  output line that ends in \<^verbatim>\<open>FAIL\<close>.
\<close>

theorem verify_verdict:
  assumes "verify E signify filename w = (Inr (passed, failed), w')"
  shows "\<exists>d b bs.
           staging w = Some d \<and> filter glob_base (map fst d) = b # bs
         \<and> (passed \<longleftrightarrow>
              fst (getstatusoutput E (clock w)
                     (signify_command signify (snapshot_release b) filename) d) = 0)
         \<and> failed = map (takeWhile (\<lambda>c. c \<noteq> CHR '':''))
             (filter (\<lambda>l. str_endswith l ''FAIL'')
                (str_split linesep
                   (snd (getstatusoutput E (clock w)
                           (signify_command signify (snapshot_release b) filename) d))))
         \<and> w' = w\<lparr>trace := trace w
                  @ [Signify (signify_command signify (snapshot_release b) filename)]\<rparr>"
  using assms
  by (elim verify_Inr) (auto simp: failed_members_eq)

theorem verify_verdict_witness:
  "verify (ex_env tool_exit0_with_fail) main_signify [] ex_staged
     = (Inr (True, [''bsd.rd'']), ex_staged\<lparr>trace := [Signify ex_command]\<rparr>)
   \<and> fst (getstatusoutput (ex_env tool_exit0_with_fail) (clock ex_staged) ex_command
            [(''SHA256.sig'', File 0 ex_manifest), (''base62.tgz'', File 0 ''B''),
             (''bsd.rd'', File 0 ''R'')]) = 0
   \<and> snd (getstatusoutput (ex_env tool_exit0_with_fail) (clock ex_staged) ex_command
            [(''SHA256.sig'', File 0 ex_manifest), (''base62.tgz'', File 0 ''B''),
             (''bsd.rd'', File 0 ''R'')]) = ''base62.tgz: OK'' @ [CHR 0x0A] @ ''bsd.rd: FAIL''
   \<and> signify_command main_signify (snapshot_release ''base62.tgz'') [] = ex_command"
  using verify_verdict[OF ex_verify_exit0_with_fail]
  by (simp add: ex_simps tool_exit0_with_fail_def)

text \<open>
  C1, as the claim states it, fails: the tool exits with status 0 and reports
  \<^verbatim>\<open>bsd.rd: FAIL\<close>; \<^verbatim>\<open>verify\<close> returns \<open>True\<close> together with a list of
  failed members that is not empty.
\<close>

theorem verify_exit0_with_fail_counterexample:
  "verify (ex_env tool_exit0_with_fail) main_signify [] ex_staged
     = (Inr (True, [''bsd.rd'']), ex_staged\<lparr>trace := [Signify ex_command]\<rparr>)"
  by (simp add: ex_simps tool_exit0_with_fail_def)

section \<open>The Integrity Gate\<close>

text \<open>
  C10. When the first verification reports no failed member, \<^verbatim>\<open>check_integrity\<close>
  returns its boolean at once, be it true or false: the only event is that one run of the
  tool (no sleep, no fetch), the clock has not moved and the snapshot is as it was.
\<close>

theorem check_integrity_no_retry:
  assumes "verify E signify [] w = (Inr (whole, []), w1)"
  shows "check_integrity E signify url w = (Inr whole, w1)
     \<and> (\<exists>command. trace w1 = trace w @ [Signify command])
     \<and> clock w1 = clock w \<and> staging w1 = staging w"
proof -
  from assms have "check_integrity E signify url w = (Inr whole, w1)"
    by (simp add: check_integrity_def)
  moreover from assms have "\<exists>command. trace w1 = trace w @ [Signify command]"
    by (auto elim!: verify_Inr)
  moreover note verify_frame(1,4)[OF assms]
  ultimately show ?thesis by simp
qed

theorem check_integrity_no_retry_witness:
  "verify (ex_env tool_exit1_silent) main_signify [] ex_staged
     = (Inr (False, []), ex_staged\<lparr>trace := [Signify ex_command]\<rparr>)
   \<and> check_integrity (ex_env tool_exit1_silent) main_signify ''http://m/snapshots/amd64/'' ex_staged
     = (Inr False, ex_staged\<lparr>trace := [Signify ex_command]\<rparr>)"
  using check_integrity_no_retry[OF ex_verify_silent, of "''http://m/snapshots/amd64/''"] ex_verify_silent
  by simp

section \<open>The single retry\<close>

lemma check_integrity_bounds:
  assumes "check_integrity E signify url w = (r, w')"
  shows "\<exists>es. trace w' = trace w @ es \<and> length (filter is_signify es) \<le> 2
           \<and> length (filter is_sleep es) \<le> 1 \<and> clock w' \<le> clock w + 300"
proof -
  obtain r1 w1 where v1: "verify E signify [] w = (r1, w1)"
    by (cases "verify E signify [] w")
  from verify_frame(1,5)[OF v1] obtain es1 where
    es1: "trace w1 = trace w @ es1" "length (filter is_signify es1) \<le> 1" "filter is_sleep es1 = []"
    and c1: "clock w1 = clock w"
    by auto
  show ?thesis
  proof (cases r1)
    case (Inl e)
    with assms v1 have "w' = w1" by (simp add: check_integrity_def)
    with es1 c1 show ?thesis by auto
  next
    case (Inr vf)
    obtain whole failed where vf: "vf = (whole, failed)" by (cases vf)
    show ?thesis
    proof (cases "failed = []")
      case True
      with assms v1 Inr vf have "w' = w1" by (simp add: check_integrity_def)
      with es1 c1 show ?thesis by auto
    next
      case False
      obtain r2 w2 where g: "get_binaries E url failed (sleep 300 w1) = (r2, w2)"
        by (cases "get_binaries E url failed (sleep 300 w1)")
      from get_binaries_frame[OF g] obtain n where
        t2: "trace w2 = trace w1 @ [Sleep 300] @ map (\<lambda>f. GetBinary (urljoin E url f) f) (take n failed)"
        and c2: "clock w2 = clock w1 + 300"
        by auto
      note nog = no_signify_in_fetches[of E url "take n failed"]
      show ?thesis
      proof (cases r2)
        case (Inl e)
        with assms v1 Inr vf False g have "w' = w2" by (simp add: check_integrity_def)
        with es1 c1 t2 c2 nog show ?thesis by auto
      next
        case r2: (Inr u)
        obtain r3 w3 where v3: "verify E signify [] w2 = (r3, w3)"
          by (cases "verify E signify [] w2")
        from assms v1 Inr vf False g r2 v3 have "w' = w3"
          by (auto simp: check_integrity_def split: sum.splits)
        moreover from verify_frame(1,5)[OF v3] obtain es3 where
          "trace w3 = trace w2 @ es3" "length (filter is_signify es3) \<le> 1" "filter is_sleep es3 = []"
          "clock w3 = clock w2"
          by auto
        ultimately show ?thesis using es1 c1 t2 c2 nog by auto
      qed
    qed
  qed
qed

lemma check_integrity_retry:
  assumes v1: "verify E signify [] w = (Inr (whole, failed), w1)"
    and ne: "failed \<noteq> []"
    and g: "get_binaries E url failed (sleep 300 w1) = (Inr (), w2)"
  shows "\<exists>command command' d whole' failed' w3.
           staging w2 = Some d
         \<and> verify E signify [] w2 = (Inr (whole', failed'), w3)
         \<and> (whole' \<longleftrightarrow> fst (getstatusoutput E (clock w + 300) command' d) = 0)
         \<and> check_integrity E signify url w = (Inr whole', w3)
         \<and> trace w3 = trace w @ [Signify command, Sleep 300]
              @ map (\<lambda>f. GetBinary (urljoin E url f) f) failed @ [Signify command']"
proof -
  from v1 obtain d0 b bs where d0: "staging w = Some d0" "filter glob_base (map fst d0) = b # bs"
    and w1: "w1 = w\<lparr>trace := trace w @ [Signify (signify_command signify (snapshot_release b) [])]\<rparr>"
    by (elim verify_Inr)
  let ?c = "signify_command signify (snapshot_release b) []"
  from d0 w1 have "staging (sleep 300 w1) = Some d0" by simp
  from get_binaries_base[OF g this d0(2)] obtain d bs' where
    d: "staging w2 = Some d" "filter glob_base (map fst d) = b # bs'"
    by auto
  from get_binaries_frame[OF g] w1 have c2: "clock w2 = clock w + 300" by simp
  from get_binaries_Inr_trace[OF g] w1
  have t2: "trace w2 = trace w @ [Signify ?c, Sleep 300] @ map (\<lambda>f. GetBinary (urljoin E url f) f) failed"
    by simp
  let ?st = "getstatusoutput E (clock w + 300) ?c d"
  from d c2 have v2: "verify E signify [] w2
      = (Inr (fst ?st = 0, failed_members (snd ?st)), w2\<lparr>trace := trace w2 @ [Signify ?c]\<rparr>)"
    by (simp add: verify_def Let_def)
  with v1 ne g have "check_integrity E signify url w
      = (Inr (fst ?st = 0), w2\<lparr>trace := trace w2 @ [Signify ?c]\<rparr>)"
    by (simp add: check_integrity_def)
  with d v2 t2 show ?thesis by auto
qed

lemma check_integrity_refetch_failed:
  assumes v1: "verify E signify [] w = (Inr (whole, failed), w1)"
    and ne: "failed \<noteq> []"
    and g: "get_binaries E url failed (sleep 300 w1) = (Inl e, w2)"
  shows "check_integrity E signify url w = (Inl e, w2)
     \<and> (\<exists>command n. n \<le> length failed
           \<and> trace w2 = trace w @ [Signify command, Sleep 300]
                @ map (\<lambda>f. GetBinary (urljoin E url f) f) (take n failed))"
proof -
  from v1 ne g have "check_integrity E signify url w = (Inl e, w2)"
    by (simp add: check_integrity_def)
  moreover from v1 obtain command where "trace w1 = trace w @ [Signify command]"
    by (auto elim!: verify_Inr)
  with get_binaries_frame[OF g]
  have "\<exists>command n. n \<le> length failed
           \<and> trace w2 = trace w @ [Signify command, Sleep 300]
                @ map (\<lambda>f. GetBinary (urljoin E url f) f) (take n failed)"
    by auto
  ultimately show ?thesis by simp
qed

text \<open>
  C3, as the code has it. Whatever the tool, the network and the snapshot do,
  \<^verbatim>\<open>check_integrity\<close> runs the tool at most twice and sleeps at most once, for 300
  seconds. When the first verification names failed members and each of them is fetched
  again, the events are exactly: the tool, one sleep of 300 seconds, one fetch per failed
  member in the order of the list, the tool again; the second verification returns, and
  its boolean (the tool's exit status being 0 at that time) is the result. When a re-fetch
  fails, its error is the outcome: the tool has run once, and the fetches stop at the
  failing one.
\<close>

theorem check_integrity_retries_once:
  "(check_integrity E signify url w = (r, w') \<longrightarrow>
      (\<exists>es. trace w' = trace w @ es \<and> length (filter is_signify es) \<le> 2
           \<and> length (filter is_sleep es) \<le> 1 \<and> clock w' \<le> clock w + 300))
   \<and> (verify E signify [] w = (Inr (whole, failed), w1) \<longrightarrow> failed \<noteq> [] \<longrightarrow>
      get_binaries E url failed (sleep 300 w1) = (Inr (), w2) \<longrightarrow>
      (\<exists>command command' d whole' failed' w3.
           staging w2 = Some d
         \<and> verify E signify [] w2 = (Inr (whole', failed'), w3)
         \<and> (whole' \<longleftrightarrow> fst (getstatusoutput E (clock w + 300) command' d) = 0)
         \<and> check_integrity E signify url w = (Inr whole', w3)
         \<and> trace w3 = trace w @ [Signify command, Sleep 300]
              @ map (\<lambda>f. GetBinary (urljoin E url f) f) failed @ [Signify command']))
   \<and> (verify E signify [] w = (Inr (whole, failed), w1) \<longrightarrow> failed \<noteq> [] \<longrightarrow>
      get_binaries E url failed (sleep 300 w1) = (Inl e, w2) \<longrightarrow>
      check_integrity E signify url w = (Inl e, w2)
      \<and> (\<exists>command n. n \<le> length failed
            \<and> trace w2 = trace w @ [Signify command, Sleep 300]
                 @ map (\<lambda>f. GetBinary (urljoin E url f) f) (take n failed)))"
proof -
  note a = check_integrity_bounds[of E signify url w r w']
  note b = check_integrity_retry[of E signify w whole failed w1 url w2]
  note c = check_integrity_refetch_failed[of E signify w whole failed w1 url e w2]
  show ?thesis
    by (intro conjI impI; (rule a b, assumption+)?) (use c in simp_all)
qed

lemma ex_verify_fails:
  "verify (ex_env tool_always_fails) main_signify [] ex_staged
     = (Inr (False, [''base62.tgz'', ''bsd.rd'']), ex_staged\<lparr>trace := [Signify ex_command]\<rparr>)"
  "verify (ex_env tool_fails_then_passes) main_signify [] ex_staged
     = (Inr (False, [''base62.tgz'', ''bsd.rd'']), ex_staged\<lparr>trace := [Signify ex_command]\<rparr>)"
  by (simp_all add: ex_simps tool_always_fails_def tool_fails_then_passes_def)

lemma ex_refetch:
  "get_binaries (ex_env tool) ''http://m/snapshots/amd64/'' [''base62.tgz'', ''bsd.rd'']
      (sleep 300 (ex_staged\<lparr>trace := [Signify ex_command]\<rparr>)) = (Inr (), ex_refetched)"
  by (simp add: ex_simps ex_refetched_def get_binary_def open_wb_def plain_name_def sleep_def)

lemma ex_check_always_fails:
  "check_integrity (ex_env tool_always_fails) main_signify ''http://m/snapshots/amd64/'' ex_staged
     = (Inr False, ex_refetched\<lparr>trace := trace ex_refetched @ [Signify ex_command]\<rparr>)"
  by (simp add: check_integrity_def ex_verify_fails ex_refetch del: get_binaries.simps)
     (simp add: ex_simps ex_refetched_def tool_always_fails_def)

lemma ex_check_fails_then_passes:
  "check_integrity (ex_env tool_fails_then_passes) main_signify ''http://m/snapshots/amd64/'' ex_staged
     = (Inr True, ex_refetched\<lparr>trace := trace ex_refetched @ [Signify ex_command]\<rparr>)"
  by (simp add: check_integrity_def ex_verify_fails ex_refetch del: get_binaries.simps)
     (simp add: ex_simps ex_refetched_def tool_fails_then_passes_def)

theorem check_integrity_retries_once_witness:
  "verify (ex_env tool_always_fails) main_signify [] ex_staged
     = (Inr (False, [''base62.tgz'', ''bsd.rd'']), ex_staged\<lparr>trace := [Signify ex_command]\<rparr>)
   \<and> get_binaries (ex_env tool_always_fails) ''http://m/snapshots/amd64/''
       [''base62.tgz'', ''bsd.rd''] (sleep 300 (ex_staged\<lparr>trace := [Signify ex_command]\<rparr>))
     = (Inr (), ex_refetched)
   \<and> check_integrity (ex_env tool_always_fails) main_signify ''http://m/snapshots/amd64/'' ex_staged
     = (Inr False, ex_refetched\<lparr>trace := trace ex_refetched @ [Signify ex_command]\<rparr>)
   \<and> length (filter is_signify (trace ex_refetched @ [Signify ex_command])) = 2
   \<and> length (filter is_sleep (trace ex_refetched @ [Signify ex_command])) = 1
   \<and> check_integrity (ex_env tool_fails_then_passes) main_signify ''http://m/snapshots/amd64/'' ex_staged
     = (Inr True, ex_refetched\<lparr>trace := trace ex_refetched @ [Signify ex_command]\<rparr>)"
proof -
  note a = check_integrity_retries_once[of "ex_env tool_always_fails" main_signify
      "''http://m/snapshots/amd64/''" ex_staged "Inr False"
      "ex_refetched\<lparr>trace := trace ex_refetched @ [Signify ex_command]\<rparr>"
      False "[''base62.tgz'', ''bsd.rd'']" "ex_staged\<lparr>trace := [Signify ex_command]\<rparr>"
      ex_refetched]
  note b = check_integrity_retries_once[of "ex_env tool_fails_then_passes" main_signify
      "''http://m/snapshots/amd64/''" ex_staged "Inr True"
      "ex_refetched\<lparr>trace := trace ex_refetched @ [Signify ex_command]\<rparr>"
      False "[''base62.tgz'', ''bsd.rd'']" "ex_staged\<lparr>trace := [Signify ex_command]\<rparr>"
      ex_refetched]
  from a ex_verify_fails(1) ex_refetch[of tool_always_fails]
  have "fst (check_integrity (ex_env tool_always_fails) main_signify ''http://m/snapshots/amd64/'' ex_staged)
      = Inr False"
    by (auto simp: ex_env_def tool_always_fails_def)
  moreover from b ex_verify_fails(2) ex_refetch[of tool_fails_then_passes]
  have "fst (check_integrity (ex_env tool_fails_then_passes) main_signify ''http://m/snapshots/amd64/'' ex_staged)
      = Inr True"
    by (auto simp: ex_env_def tool_fails_then_passes_def ex_staged_def)
  ultimately show ?thesis
    using ex_check_always_fails ex_check_fails_then_passes ex_verify_fails(1)
      ex_refetch[of tool_always_fails]
    by (simp add: ex_refetched_def)
qed

text \<open>
  C3, as the claim states it, fails: the first verification names two failed members, and
  the mirror no longer answers when the cool-down is over. The first re-fetch ends the
  process: the tool has run once, and no verdict is returned.
\<close>

theorem check_integrity_refetch_fails_counterexample:
  "check_integrity ex_mirror_gone main_signify ''http://m/snapshots/amd64/'' ex_staged
     = (Inl (SysExit (- 2)),
        ex_staged\<lparr>clock := 300,
                   trace := [Signify ex_command, Sleep 300,
                             GetBinary ''http://m/snapshots/amd64/base62.tgz'' ''base62.tgz'']\<rparr>)"
  by (simp add: ex_simps ex_mirror_gone_def tool_always_fails_def check_integrity_def
        get_binary_def open_wb_def plain_name_def sleep_def)

section \<open>The Generation Rotator\<close>

text \<open>
  C5. With a snapshot in the upgrade slot, \<^verbatim>\<open>rotate\<close> succeeds, whatever the
  other two slots hold: afterwards the previous slot holds what the current slot held
  (nothing, if it was empty), the current slot holds what the upgrade slot held, the
  upgrade slot is empty, and what the previous slot held is gone. Nothing else changes.
\<close>

theorem rotate_shifts_slots:
  assumes "upgrade w = Some u"
  shows "rotate w = (Inr (), w\<lparr>previous := current w, current := Some u, upgrade := None\<rparr>)"
  using assms
  by (cases "previous w"; cases "current w") (simp_all add: rotate_def move_def)

theorem rotate_shifts_slots_witness:
  "upgrade ex_slots = Some [(''bsd.rd'', File 3 ''R'')]
   \<and> rotate ex_slots
       = (Inr (), ex_slots\<lparr>previous := Some [(''bsd.rd'', File 2 ''C'')],
                              current := Some [(''bsd.rd'', File 3 ''R'')], upgrade := None\<rparr>)
   \<and> rotate (ex_slots\<lparr>previous := None\<rparr>)
       = (Inr (), ex_slots\<lparr>previous := Some [(''bsd.rd'', File 2 ''C'')],
                              current := Some [(''bsd.rd'', File 3 ''R'')], upgrade := None\<rparr>)
   \<and> rotate (ex_slots\<lparr>previous := None, current := None\<rparr>)
       = (Inr (), ex_slots\<lparr>previous := None,
                              current := Some [(''bsd.rd'', File 3 ''R'')], upgrade := None\<rparr>)"
  using rotate_shifts_slots[of ex_slots "[(''bsd.rd'', File 3 ''R'')]"]
    rotate_shifts_slots[of "ex_slots\<lparr>previous := None\<rparr>" "[(''bsd.rd'', File 3 ''R'')]"]
    rotate_shifts_slots[of "ex_slots\<lparr>previous := None, current := None\<rparr>" "[(''bsd.rd'', File 3 ''R'')]"]
  by (simp add: ex_slots_def)

section \<open>The Installed-State Comparator\<close>

text \<open>
  C4, as the code has it. \<^verbatim>\<open>is_installed\<close> compares with \<^verbatim>\<open>filecmp.cmp\<close> in
  its default shallow mode. For two regular files it returns true exactly when their
  contents are equal, or their sizes and modification times are. So two files with the same
  bytes always compare equal, two files of different sizes never do, and two files of
  the same size and modification time compare equal whatever their bytes.
\<close>

theorem is_installed_shallow:
  assumes "map_of snapshot ramdisk_file = Some (File t1 c1)"
    and "root_ramdisk E = Some (File t2 c2)"
  shows "is_installed E snapshot = Inr (c1 = c2 \<or> (length c1 = length c2 \<and> t1 = t2))"
  using assms by (auto simp: is_installed_def cmp_def)

theorem is_installed_shallow_witness:
  "map_of [(''bsd.rd'', File 7 ''R'')] ramdisk_file = Some (File 7 ''R'')
   \<and> root_ramdisk (ex_env tool_always_fails) = Some (File 0 ''R'')
   \<and> is_installed (ex_env tool_always_fails) [(''bsd.rd'', File 7 ''R'')] = Inr True
   \<and> is_installed (ex_env tool_always_fails) [(''bsd.rd'', File 7 ''Q'')] = Inr False"
  using is_installed_shallow[of "[(''bsd.rd'', File 7 ''R'')]" 7 "''R''" "ex_env tool_always_fails" 0 "''R''"]
    is_installed_shallow[of "[(''bsd.rd'', File 7 ''Q'')]" 7 "''Q''" "ex_env tool_always_fails" 0 "''R''"]
  by (simp add: ramdisk_file_def ex_env_def)

text \<open>
  C4, as the claim states it, fails: the snapshot's \<^verbatim>\<open>bsd.rd\<close> holds \<^verbatim>\<open>Q\<close>, the
  running system's holds \<^verbatim>\<open>R\<close>; both are one byte long and were last modified at
  time 0. The files differ, and \<^verbatim>\<open>is_installed\<close> returns true.
\<close>

theorem is_installed_same_stat_counterexample:
  "is_installed (ex_env tool_always_fails) [(''bsd.rd'', File 0 ''Q'')] = Inr True
   \<and> root_ramdisk (ex_env tool_always_fails) = Some (File 0 ''R'')
   \<and> ''Q'' \<noteq> ''R''"
  by (simp add: is_installed_def cmp_def ramdisk_file_def ex_env_def)

section \<open>The release token\<close>

lemma dropWhile_hd: "xs \<noteq> [] \<Longrightarrow> \<not> P (hd xs) \<Longrightarrow> dropWhile P (xs @ ys) = xs @ ys"
  by (cases xs) auto

lemma snapshot_release_framed:
  assumes "token = [] \<or> (hd token \<notin> set ''base'' \<and> last token \<notin> set ''.tgz'')"
  shows "snapshot_release (''base'' @ token @ ''.tgz'') = token"
proof (cases "token = []")
  case True
  then show ?thesis
    by (simp add: snapshot_release_def str_rstrip_def str_lstrip_def)
next
  case False
  with assms have h: "hd token \<notin> set ''base''" and l: "last token \<notin> set ''.tgz''" by auto
  from False l have "dropWhile (\<lambda>c. c \<in> set ''.tgz'') (rev token @ rev ''base'') = rev token @ rev ''base''"
    by (intro dropWhile_hd) (simp_all add: hd_rev)
  then have "str_rstrip (''base'' @ token @ ''.tgz'') ''.tgz'' = ''base'' @ token"
    by (simp add: str_rstrip_def)
  moreover from False h have "dropWhile (\<lambda>c. c \<in> set ''base'') (token @ []) = token @ []"
    by (intro dropWhile_hd) simp_all
  ultimately show ?thesis
    by (simp add: snapshot_release_def str_lstrip_def)
qed

lemma verify_without_base_archive:
  assumes "staging w = Some d" and "filter glob_base (map fst d) = []"
  shows "verify E signify filename w = (Inl IndexError, w)"
  using assms by (simp add: verify_def)

text \<open>
  C8, where the code departs from it: \<^verbatim>\<open>rstrip\<close> and \<^verbatim>\<open>lstrip\<close> strip sets of
  characters, not a suffix and a prefix. From the base archive \<^verbatim>\<open>basesnapshot.tgz\<close>,
  whose token is \<^verbatim>\<open>snapshot\<close>, the code extracts \<^verbatim>\<open>napsho\<close>, and the key it
  names is that of no release.
\<close>

theorem snapshot_release_strips_too_much:
  "snapshot_release ''basesnapshot.tgz'' = ''napsho''
   \<and> fst (verify (ex_env tool_exit1_silent) main_signify []
        (ex_staged\<lparr>staging := Some [(''basesnapshot.tgz'', File 0 ''B'')]\<rparr>))
     = Inr (False, [])
   \<and> trace (snd (verify (ex_env tool_exit1_silent) main_signify []
        (ex_staged\<lparr>staging := Some [(''basesnapshot.tgz'', File 0 ''B'')]\<rparr>)))
     = [Signify ''signify -Cp /etc/signify/openbsd-napsho-base.pub -x SHA256.sig '']"
  by (simp add: ex_simps tool_exit1_silent_def)

section \<open>The Snapshot Acquirer\<close>













section \<open>What the snapshot pipeline leaves alone\<close>







section \<open>The Release Orchestrator\<close>

lemma staging_update_frame [simp]:
  "slots (w\<lparr>staging := x\<rparr>) = slots w"
  by (simp add: slots_def)















section \<open>An example run\<close>










section \<open>Properties of the orchestrator\<close>









end
